theory Spec2Isabelle
  imports Main "HOL-Library.Word"
begin

unbundle bit_operations_syntax

section \<open>Strings, bytes and errors\<close>

text \<open>
  The file-system half of the extension decodes UTF-16 code units, so its strings are
  lists of 16-bit units, as JavaScript strings are. \<open>utf16\<close> writes an ASCII literal
  in that form; a backslash is the unit \<open>0x5C\<close>.
\<close>

type_synonym byte = "8 word"
type_synonym char16 = "16 word"
type_synonym jsstring = "char16 list"

definition utf16 :: "string \<Rightarrow> jsstring" where
  "utf16 s = map of_char s"

text \<open>
  Everything the source can throw or reject with. \<open>SysError\<close> is an error raised by a
  collaborator (fs, winapi-bindings, turbowalk, the drive list) and carries its
  \<open>code\<close>; the other two are the \<open>new Error(...)\<close> values that
  \<open>findXboxGamingRootPath\<close> throws itself, each carrying the marker file's path.
\<close>

datatype error =
    SysError string
  | NonEvenBytes jsstring
  | ShorterThanExpected jsstring

section \<open>The .GamingRoot marker (gamingroot discovery)\<close>

text \<open>
  \<open>fs.statAsync\<close> resolves to a stats object of which only \<open>isFile()\<close> is read, or
  rejects; \<open>fs.readFileAsync\<close> resolves to the bytes of the file, or rejects.
\<close>

record fs_stats =
  isFile :: bool

record fs =
  statAsync :: "jsstring \<Rightarrow> error + fs_stats"
  readFileAsync :: "jsstring \<Rightarrow> error + byte list"

text \<open>
  The decoding loop \<open>for (let i = 0; i < fileContent.length; i += 2)\<close>: the value
  \<open>highByte | (lowByte << 8)\<close> is a JavaScript number. A read past the end gives
  \<open>undefined\<close>, which \<open><<\<close> turns into 0; the loop is only reached with an even length.
\<close>

fun char16s :: "byte list \<Rightarrow> int list" where
  "char16s [] = []"
| "char16s [highByte] = [uint highByte OR push_bit 8 0]"
| "char16s (highByte # lowByte # rest) =
     (uint highByte OR push_bit 8 (uint lowByte)) # char16s rest"

text \<open>\<open>content.slice(start, -1)\<close>: from \<open>start\<close> up to, not including, the last element.\<close>

definition slice_to_last :: "'a list \<Rightarrow> nat \<Rightarrow> 'a list" where
  "slice_to_last xs start = take (length xs - 1 - start) (drop start xs)"

text \<open>\<open>String.fromCharCode\<close> reduces every argument to 16 bits.\<close>

definition fromCharCode :: "int list \<Rightarrow> jsstring" where
  "fromCharCode units = map word_of_int units"

definition CHAR16_PATH_OFFSET :: nat where
  "CHAR16_PATH_OFFSET = 4"

text \<open>
  The body of the \<open>try\<close> block of \<open>findXboxGamingRootPath\<close>: \<open>Inl\<close> is an exception
  leaving the block, \<open>Inr None\<close> the \<open>return null\<close>, \<open>Inr (Some p)\<close> the returned path.
\<close>

definition findXboxGamingRootPath_try :: "fs \<Rightarrow> jsstring \<Rightarrow> error + jsstring option" where
  "findXboxGamingRootPath_try env driveRootPath =
     (let gamingRootFilePath = driveRootPath @ utf16 ''.GamingRoot'' in
      case statAsync env gamingRootFilePath of
        Inl err \<Rightarrow> Inl err
      | Inr fileStats \<Rightarrow>
          if \<not> isFile fileStats then Inr None
          else
            (case readFileAsync env gamingRootFilePath of
              Inl err \<Rightarrow> Inl err
            | Inr fileContent \<Rightarrow>
                if length fileContent mod 2 \<noteq> 0 then Inl (NonEvenBytes gamingRootFilePath)
                else
                  (let content = char16s fileContent in
                   if length content < CHAR16_PATH_OFFSET + 1
                   then Inl (ShorterThanExpected gamingRootFilePath)
                   else
                     (let relativePath = fromCharCode (slice_to_last content CHAR16_PATH_OFFSET)
                      in Inr (Some (driveRootPath @ relativePath))))))"

text \<open>
  The whole function: the \<open>catch (err)\<close> clause logs and returns \<open>null\<close> for every
  exception of the block. The result type keeps the \<open>Inl\<close> side, a rejection reaching the
  caller, so that its absence is a theorem and not a choice of type.
\<close>

definition findXboxGamingRootPath :: "fs \<Rightarrow> jsstring \<Rightarrow> error + jsstring option" where
  "findXboxGamingRootPath env driveRootPath =
     (case findXboxGamingRootPath_try env driveRootPath of
        Inl err \<Rightarrow> Inr None
      | Inr r \<Rightarrow> Inr r)"

section \<open>Volume scan and manifests (findInstalledGames)\<close>

text \<open>
  The parsed manifest as xml2js delivers it, as far as the optional chain
  \<open>data?.Package?.Identity?.[0]?.$?.Name\<close> reads it: every link may be missing.
\<close>

record identity_attrs =
  Name :: "jsstring option"

record identity_elem =
  attrs :: "identity_attrs option"

record package_elem =
  Identity :: "identity_elem list option"

record app_manifest =
  Package :: "package_elem option"

text \<open>
  The collaborators of the scan, beyond the file system: the search paths of the host's
  state, \<open>util.getDriveList\<close>, turbowalk's \<open>walk\<close> (the file paths of the entries
  handed to the callback, one list per call, for a root and the recurse flag), Node's
  \<open>path\<close> functions, the constant \<open>APP_MANIFEST\<close> of the module \<open>common\<close>, reading a
  file as text and xml2js's \<open>parseStringPromise\<close>.
\<close>

record host = fs +
  searchPaths :: "jsstring list"
  getDriveList :: "error + jsstring list"
  walk :: "jsstring \<Rightarrow> bool \<Rightarrow> error + jsstring list list"
  basename :: "jsstring \<Rightarrow> jsstring"
  dirname :: "jsstring \<Rightarrow> jsstring"
  join :: "jsstring \<Rightarrow> jsstring \<Rightarrow> jsstring"
  APP_MANIFEST :: jsstring
  readFileUtf8 :: "jsstring \<Rightarrow> error + jsstring"
  parseStringPromise :: "jsstring \<Rightarrow> error + app_manifest"

type_synonym GamePathMap = "jsstring \<rightharpoonup> jsstring"

definition findManifests :: "host \<Rightarrow> jsstring \<Rightarrow> bool \<Rightarrow> error + jsstring list" where
  "findManifests h rootPath recurse =
     (case walk h rootPath recurse of
        Inl err \<Rightarrow> Inl err
      | Inr batches \<Rightarrow>
          Inr (foldl (\<lambda>fileList entries.
                 fileList @ filter (\<lambda>filePath. basename h filePath = APP_MANIFEST h) entries)
               [] batches))"

definition getAppManifestData :: "host \<Rightarrow> jsstring \<Rightarrow> app_manifest option" where
  "getAppManifestData h filePath =
     (let appManifestFilePath = join h filePath (APP_MANIFEST h) in
      case readFileUtf8 h appManifestFilePath of
        Inl err \<Rightarrow> None
      | Inr data \<Rightarrow>
          (case parseStringPromise h data of
             Inl err \<Rightarrow> None
           | Inr parsed \<Rightarrow> Some parsed))"

text \<open>\<open>data?.Package?.Identity?.[0]?.$?.Name\<close>\<close>

definition identity_name :: "app_manifest option \<Rightarrow> jsstring option" where
  "identity_name data =
     (case data of
        None \<Rightarrow> None
      | Some d \<Rightarrow>
          (case Package d of
             None \<Rightarrow> None
           | Some p \<Rightarrow>
               (case Identity p of
                  None \<Rightarrow> None
                | Some ids \<Rightarrow>
                    (case ids of
                       [] \<Rightarrow> None
                     | i # _ \<Rightarrow> (case attrs i of None \<Rightarrow> None | Some a \<Rightarrow> Name a)))))"

text \<open>
  The loop of \<open>findXboxGamingRootPaths\<close> over the drives, pushing every result that is
  not \<open>null\<close>.
\<close>

fun gamingRootPaths_loop :: "host \<Rightarrow> jsstring list \<Rightarrow> jsstring list \<Rightarrow> error + jsstring list" where
  "gamingRootPaths_loop h gamingRootPaths [] = Inr gamingRootPaths"
| "gamingRootPaths_loop h gamingRootPaths (drive # drives) =
     (case findXboxGamingRootPath (fs.truncate h) drive of
        Inl err \<Rightarrow> Inl err
      | Inr None \<Rightarrow> gamingRootPaths_loop h gamingRootPaths drives
      | Inr (Some gamingRootPath) \<Rightarrow>
          gamingRootPaths_loop h (gamingRootPaths @ [gamingRootPath]) drives)"

definition findXboxGamingRootPaths :: "host \<Rightarrow> error + jsstring list" where
  "findXboxGamingRootPaths h =
     (if length (searchPaths h) = 0
      then (case getDriveList h of
              Inl err \<Rightarrow> Inl err
            | Inr drives \<Rightarrow> gamingRootPaths_loop h [] drives)
      else gamingRootPaths_loop h [] (searchPaths h))"

text \<open>
  \<open>gamePathMap[appId] = gamePath\<close> on an object created by the literal \<open>{}\<close>. The map
  holds the own properties of the object. Every key creates or overwrites an own
  property, but the key \<open>__proto__\<close>: it is an accessor inherited from
  \<open>Object.prototype\<close>, whose setter ignores a string, so that nothing is stored.
\<close>

definition set_property :: "GamePathMap \<Rightarrow> jsstring \<Rightarrow> jsstring \<Rightarrow> GamePathMap" where
  "set_property obj key v = (if key = utf16 ''__proto__'' then obj else obj(key \<mapsto> v))"

text \<open>
  The inner loop of \<open>findInstalledGames\<close> over the manifests of one gaming root;
  \<open>if (appId)\<close> holds for a string that is not empty.
\<close>

fun manifests_loop :: "host \<Rightarrow> GamePathMap \<Rightarrow> jsstring list \<Rightarrow> GamePathMap" where
  "manifests_loop h gamePathMap [] = gamePathMap"
| "manifests_loop h gamePathMap (manifest # manifests) =
     (let gamePath = dirname h manifest;
          data = getAppManifestData h gamePath;
          appId = identity_name data
      in manifests_loop h
           (case appId of
              None \<Rightarrow> gamePathMap
            | Some a \<Rightarrow> if a \<noteq> [] then set_property gamePathMap a gamePath else gamePathMap)
           manifests)"

text \<open>The outer loop over the gaming roots; a rejected walk rejects the whole call.\<close>

fun gamingRoots_loop :: "host \<Rightarrow> GamePathMap \<Rightarrow> jsstring list \<Rightarrow> error + GamePathMap" where
  "gamingRoots_loop h gamePathMap [] = Inr gamePathMap"
| "gamingRoots_loop h gamePathMap (gamingRootPath # gamingRootPaths) =
     (case findManifests h gamingRootPath True of
        Inl err \<Rightarrow> Inl err
      | Inr manifests \<Rightarrow>
          gamingRoots_loop h (manifests_loop h gamePathMap manifests) gamingRootPaths)"

definition findInstalledGames :: "host \<Rightarrow> error + GamePathMap" where
  "findInstalledGames h =
     (case findXboxGamingRootPaths h of
        Inl err \<Rightarrow> Inl err
      | Inr gamingRootPaths \<Rightarrow> gamingRoots_loop h Map.empty gamingRootPaths)"

section \<open>The registry store (index.ts)\<close>

text \<open>
  Registry key names, value names and string data are modelled as \<open>string\<close>. The
  operations of \<open>String.prototype\<close> that the source uses are written out for the
  arguments it passes.
\<close>

definition sep :: string where
  "sep = [CHR 0x5C]"

definition startsWith :: "string \<Rightarrow> string \<Rightarrow> bool" where
  "startsWith s p = (take (length p) s = p)"

text \<open>\<open>s.indexOf(c)\<close> and \<open>s.lastIndexOf(c)\<close> for a one-character \<open>c\<close>: \<open>-1\<close> when absent.\<close>

fun indexOf :: "string \<Rightarrow> char \<Rightarrow> int" where
  "indexOf [] c = -1"
| "indexOf (x # xs) c =
     (if x = c then 0 else (let i = indexOf xs c in if i < 0 then -1 else i + 1))"

definition lastIndexOf :: "string \<Rightarrow> char \<Rightarrow> int" where
  "lastIndexOf s c =
     (let i = indexOf (rev s) c in if i < 0 then -1 else int (length s) - 1 - i)"

text \<open>\<open>s.substr(start)\<close> for \<open>start \<ge> 0\<close>, and \<open>s.substring(start, end)\<close>, which
  raises negative arguments to 0 and swaps them when \<open>start > end\<close>.\<close>

definition substr :: "string \<Rightarrow> int \<Rightarrow> string" where
  "substr s start = drop (nat start) s"

definition substring :: "string \<Rightarrow> int \<Rightarrow> int \<Rightarrow> string" where
  "substring s start end =
     (let a = nat (max 0 start); b = nat (max 0 end)
      in take (max a b - min a b) (drop (min a b) s))"

text \<open>\<open>s.split(c)\<close> for a one-character separator: never empty, \<open>[s]\<close> when \<open>c\<close> is absent.\<close>

fun split :: "string \<Rightarrow> char \<Rightarrow> string list" where
  "split [] c = [[]]"
| "split (x # xs) c =
     (if x = c then [] # split xs c
      else (case split xs c of
              [] \<Rightarrow> [[x]]
            | seg # segs \<Rightarrow> (x # seg) # segs))"

definition STORE_ID :: string where
  "STORE_ID = ''xbox''"

definition XBOXAPP_NAME :: string where
  "XBOXAPP_NAME = ''microsoft.xboxapp''"

definition IGNORABLE :: "string list" where
  "IGNORABLE =
     [''microsoft.accounts'', ''microsoft.aad'', ''microsoft.advertising'', ''microsoft.bing'',
      ''microsoft.desktop'', ''microsoft.directx'', ''microsoft.gethelp'',
      ''microsoft.getstarted'', ''microsoft.hefi'', ''microsoft.lockapp'',
      ''microsoft.microsoft'', ''microsoft.net'', ''microsoft.office'',
      ''microsoft.oneconnect'', ''microsoft.services'', ''microsoft.ui'', ''microsoft.vclibs'',
      ''microsoft.windows'', ''microsoft.xbox'', ''microsoft.zune'', ''nvidiacorp'',
      ''realtek'', ''samsung'', ''synapticsincorporated'', ''windows'']"

definition APPMODEL :: string where
  "APPMODEL = ''Software'' @ sep @ ''Microsoft'' @ sep @ ''Windows'' @ sep @
     ''CurrentVersion'' @ sep @ ''AppModel''"

definition REPOSITORY_PATH :: string where
  "REPOSITORY_PATH = ''Local Settings'' @ sep @ APPMODEL @ sep @ ''Repository'' @ sep @ ''Packages''"

definition REPOSITORY_PATH2 :: string where
  "REPOSITORY_PATH2 =
     ''Local Settings'' @ sep @ APPMODEL @ sep @ ''PackageRepository'' @ sep @ ''Packages''"

definition MUTABLE_LOCATION_PATH :: string where
  "MUTABLE_LOCATION_PATH = ''SOFTWARE'' @ sep @ ''Microsoft'' @ sep @ ''Windows'' @ sep @
     ''CurrentVersion'' @ sep @ ''AppModel'' @ sep @ ''StateRepository'' @ sep @ ''Cache'' @ sep @
     ''Package'' @ sep @ ''Data''"

text \<open>
  \<open>RESOURCES_PATH.replace('{{PACKAGE_ID}}', packageId)\<close>. \<open>RESOURCES_PATH\<close> is the text
  before the placeholder, the placeholder and the text after it. \<open>replace\<close> with a string
  pattern puts the replacement in the place of the first occurrence, after expanding the
  patterns of the replacement: \<open>$$\<close> is a dollar sign, \<open>$&\<close> the matched text,
  \<open>$`\<close> the text before the match and \<open>$'\<close> the text after it; there is no capture
  group, so every other \<open>$\<close> stands for itself.
\<close>

definition RESOURCES_PATH_before :: string where
  "RESOURCES_PATH_before =
     ''Local Settings'' @ sep @ ''MrtCache'' @ sep @ ''C:%5CProgram Files%5CWindowsApps%5C''"

definition RESOURCES_PATH_after :: string where
  "RESOURCES_PATH_after = ''%5Cresources.pri''"

fun substitution :: "string \<Rightarrow> string \<Rightarrow> string \<Rightarrow> string \<Rightarrow> string" where
  "substitution matched before after [] = []"
| "substitution matched before after [c] = [c]"
| "substitution matched before after (c # d # rest) =
     (if c = CHR ''$'' then
        (if d = CHR ''$'' then CHR ''$'' # substitution matched before after rest
         else if d = CHR ''&'' then matched @ substitution matched before after rest
         else if d = CHR 0x60 then before @ substitution matched before after rest
         else if d = CHR 0x27 then after @ substitution matched before after rest
         else c # substitution matched before after (d # rest))
      else c # substitution matched before after (d # rest))"

definition RESOURCES_PATH_replace :: "string \<Rightarrow> string" where
  "RESOURCES_PATH_replace packageId =
     RESOURCES_PATH_before @
     substitution ''{{PACKAGE_ID}}'' RESOURCES_PATH_before RESOURCES_PATH_after packageId @
     RESOURCES_PATH_after"

text \<open>
  winapi-bindings, as the source calls it. A key is named by a hive, or by the handle
  that \<open>WithRegOpen\<close> passes to its callback (the hive and path it was opened at).
  \<open>RegOpen\<close> is the opening step of \<open>WithRegOpen\<close>: \<open>Some err\<close> when it throws.
  \<open>RegEnumKeys\<close> gives the \<open>key\<close> of every child, \<open>RegEnumValues\<close> the \<open>key\<close> and
  \<open>type\<close> of every value, \<open>RegGetValue\<close> the \<open>value\<close> of one, read \<open>as string\<close>.
  Node's \<open>path.join\<close> and the engine's \<open>toLowerCase\<close> are parameters as well.
\<close>

datatype REGISTRY_HIVE = HKEY_CLASSES_ROOT | HKEY_LOCAL_MACHINE

datatype hkey = Hive REGISTRY_HIVE | Opened REGISTRY_HIVE string

record value_info =
  vkey :: string
  vtype :: string

record winapi =
  RegOpen :: "REGISTRY_HIVE \<Rightarrow> string \<Rightarrow> error option"
  RegEnumKeys :: "hkey \<Rightarrow> error + string list"
  RegEnumValues :: "hkey \<Rightarrow> error + value_info list"
  RegGetValue :: "hkey \<Rightarrow> string \<Rightarrow> string \<Rightarrow> error + string"
  path_join :: "string \<Rightarrow> string \<Rightarrow> string"
  toLowerCase :: "string \<Rightarrow> string"

definition WithRegOpen ::
  "winapi \<Rightarrow> REGISTRY_HIVE \<Rightarrow> string \<Rightarrow> (hkey \<Rightarrow> error + 'a) \<Rightarrow> error + 'a" where
  "WithRegOpen w rootKey keyPath cb =
     (case RegOpen w rootKey keyPath of
        Some err \<Rightarrow> Inl err
      | None \<Rightarrow> cb (Opened rootKey keyPath))"

text \<open>
  \<open>getKeyNames\<close>: every exception of the block leaves \<open>keyNames\<close> empty (the error code
  only decides whether it is logged).
\<close>

definition getKeyNames ::
  "winapi \<Rightarrow> REGISTRY_HIVE \<Rightarrow> string \<Rightarrow> string list option \<Rightarrow> string list" where
  "getKeyNames w rootKey keyPath filterList =
     (case WithRegOpen w rootKey keyPath (\<lambda>hkey.
             case RegEnumKeys w hkey of
               Inl err \<Rightarrow> Inl err
             | Inr names \<Rightarrow>
                 Inr (case filterList of
                        Some fl \<Rightarrow>
                          filter (\<lambda>key. find (\<lambda>ign. startsWith (toLowerCase w key) ign) fl = None)
                            names
                      | None \<Rightarrow> names)) of
        Inl err \<Rightarrow> []
      | Inr keyNames \<Rightarrow> keyNames)"

definition getFirstKeyName :: "winapi \<Rightarrow> REGISTRY_HIVE \<Rightarrow> string \<Rightarrow> string option" where
  "getFirstKeyName w rootKey keyPath =
     (let keyNames = getKeyNames w rootKey keyPath None
      in if length keyNames > 0 then Some (hd keyNames) else None)"

text \<open>
  One run of the body of \<open>for (const key of keys)\<close> in \<open>resolveMutableLocation\<close>, then
  the rest of the loop. \<open>Inl\<close> is an exception leaving the loop.
\<close>

fun mutableLocation_loop ::
  "winapi \<Rightarrow> string \<Rightarrow> string option \<Rightarrow> string list \<Rightarrow> error + string option" where
  "mutableLocation_loop w packagePath mutableLocation [] = Inr mutableLocation"
| "mutableLocation_loop w packagePath mutableLocation (key # keys) =
     (if mutableLocation \<noteq> None then Inr mutableLocation
      else
        (let hivePath = path_join w MUTABLE_LOCATION_PATH key in
         case WithRegOpen w HKEY_LOCAL_MACHINE hivePath (\<lambda>secondhkey.
                case RegEnumValues w secondhkey of
                  Inl err \<Rightarrow> Inl err
                | Inr vals \<Rightarrow>
                    (let values = map vkey (filter (\<lambda>val. vtype val = ''REG_SZ'') vals) in
                     if ''MutableLink'' \<in> set values \<and> ''MutableLocation'' \<in> set values
                     then
                       (case RegGetValue w (Hive HKEY_LOCAL_MACHINE) hivePath ''MutableLink'' of
                          Inl err \<Rightarrow> Inl err
                        | Inr link \<Rightarrow>
                            if link = packagePath
                            then
                              (case RegGetValue w (Hive HKEY_LOCAL_MACHINE) hivePath
                                      ''MutableLocation'' of
                                 Inl err \<Rightarrow> Inl err
                               | Inr v \<Rightarrow> Inr (Some v))
                            else Inr mutableLocation)
                     else Inr mutableLocation)) of
           Inl err \<Rightarrow> Inl err
         | Inr mutableLocation' \<Rightarrow> mutableLocation_loop w packagePath mutableLocation' keys))"

text \<open>
  \<open>resolveMutableLocation\<close>: the loop starts with \<open>mutableLocation\<close> undefined (the
  first test of the outer callback never holds), and the \<open>catch\<close> clause turns every
  exception of the two nested \<open>WithRegOpen\<close> calls into \<open>undefined\<close>.
\<close>

definition resolveMutableLocation :: "winapi \<Rightarrow> string \<Rightarrow> string option" where
  "resolveMutableLocation w packagePath =
     (case WithRegOpen w HKEY_LOCAL_MACHINE MUTABLE_LOCATION_PATH (\<lambda>firsthkey.
             case RegEnumKeys w firsthkey of
               Inl err \<Rightarrow> Inl err
             | Inr keys \<Rightarrow> mutableLocation_loop w packagePath None keys) of
        Inl err \<Rightarrow> None
      | Inr mutableLocation \<Rightarrow> mutableLocation)"

text \<open>
  The callback of \<open>hives.forEach\<close> in \<open>resolveRef\<close>, with the variable \<open>name\<close> passed
  through: an exception in the \<open>try\<close> block leaves \<open>name\<close> as it was.
\<close>

definition resolveRef_hive ::
  "winapi \<Rightarrow> string \<Rightarrow> string \<Rightarrow> string option \<Rightarrow> string \<Rightarrow> string option" where
  "resolveRef_hive w hivesPath displayName name hive =
     (let namePath = path_join w hivesPath hive in
      case WithRegOpen w HKEY_CLASSES_ROOT namePath (\<lambda>secondhkey.
             case RegEnumValues w secondhkey of
               Inl err \<Rightarrow> Inl err
             | Inr vals \<Rightarrow>
                 (let values = map vkey vals in
                  if displayName \<in> set values
                  then
                    (case RegGetValue w (Hive HKEY_CLASSES_ROOT) namePath displayName of
                       Inl err \<Rightarrow> Inl err
                     | Inr v \<Rightarrow> Inr (Some v))
                  else Inr name)) of
        Inl err \<Rightarrow> name
      | Inr name' \<Rightarrow> name')"

definition resolveRef :: "winapi \<Rightarrow> string \<Rightarrow> string \<Rightarrow> string option" where
  "resolveRef w packageId displayName =
     (let cachePath = RESOURCES_PATH_replace packageId in
      case getFirstKeyName w HKEY_CLASSES_ROOT cachePath of
        None \<Rightarrow> None
      | Some firstKey \<Rightarrow>
          if firstKey = [] then None
          else
            (let hivesPath = path_join w cachePath firstKey;
                 hives = getKeyNames w HKEY_CLASSES_ROOT hivesPath None
             in if length hives = 0 then None
                else foldl (resolveRef_hive w hivesPath displayName) None hives))"

record IXboxEntry =
  appid :: string
  publisherId :: string
  executionName :: string
  gamePath :: string
  name :: "string option"
  gameStoreId :: string

text \<open>
  The callback of \<open>keys.map\<close> in \<open>getGameEntries\<close>: \<open>Inl\<close> is an exception leaving the
  callback, \<open>Inr None\<close> the \<open>return undefined\<close>, \<open>Inr (Some e)\<close> the entry. The local
  variables that share a name with a field of the entry are primed.
\<close>

definition gameEntry :: "winapi \<Rightarrow> hkey \<Rightarrow> string \<Rightarrow> error + IXboxEntry option" where
  "gameEntry w hkey key =
     (let packageId = key;
          firstKeyName = getFirstKeyName w HKEY_CLASSES_ROOT (path_join w REPOSITORY_PATH2 key);
          executionName' =
            (case firstKeyName of
               None \<Rightarrow> ''App''
             | Some fk \<Rightarrow>
                 if fk = [] then ''App''
                 else (let segs = split fk (CHR ''!'')
                       in if length segs > 1 then last segs else ''App''));
          publisherId' = substr key (lastIndexOf key (CHR ''_'') + 1);
          appid' = substring key 0 (indexOf key (CHR ''_''))
      in case RegGetValue w (Hive HKEY_CLASSES_ROOT) (REPOSITORY_PATH @ sep @ key) ''DisplayName'' of
           Inl err \<Rightarrow> Inr None
         | Inr displayName \<Rightarrow>
             (let name' = (if startsWith displayName ''@''
                           then resolveRef w packageId displayName
                           else Some displayName)
              in case RegGetValue w hkey key ''PackageRootFolder'' of
                   Inl err \<Rightarrow> Inl err
                 | Inr gamePath' \<Rightarrow>
                     (let mutableLocation = resolveMutableLocation w gamePath'
                      in Inr (Some \<lparr>appid = appid', publisherId = publisherId',
                            executionName = executionName',
                            gamePath = (case mutableLocation of
                                          Some m \<Rightarrow> m
                                        | None \<Rightarrow> gamePath'),
                            name = name', gameStoreId = STORE_ID\<rparr>))))"

text \<open>\<open>keys.map(callback)\<close>: the first exception of the callback ends the map.\<close>

fun map_throwing :: "('a \<Rightarrow> error + 'b) \<Rightarrow> 'a list \<Rightarrow> error + 'b list" where
  "map_throwing f [] = Inr []"
| "map_throwing f (x # xs) =
     (case f x of
        Inl err \<Rightarrow> Inl err
      | Inr y \<Rightarrow> (case map_throwing f xs of Inl err \<Rightarrow> Inl err | Inr ys \<Rightarrow> Inr (y # ys)))"

text \<open>The keys left by the filter on \<open>IGNORABLE\<close>.\<close>

definition unignored :: "winapi \<Rightarrow> string list \<Rightarrow> string list" where
  "unignored w names =
     filter (\<lambda>key. find (\<lambda>ign. startsWith (toLowerCase w key) ign) IGNORABLE = None) names"

text \<open>
  \<open>getGameEntries\<close>, given the value of \<open>this.isXboxInstalled\<close>: the promise it
  returns, \<open>Inr\<close> resolved with the entries and \<open>Inl\<close> rejected. The executor runs at
  once, so the registry is read during the call.
\<close>

definition getGameEntries :: "winapi \<Rightarrow> bool \<Rightarrow> error + IXboxEntry list" where
  "getGameEntries w installed =
     (if installed = False then Inr []
      else WithRegOpen w HKEY_CLASSES_ROOT REPOSITORY_PATH (\<lambda>hkey.
             case RegEnumKeys w hkey of
               Inl err \<Rightarrow> Inl err
             | Inr names \<Rightarrow>
                 (let keys = unignored w names in
                  case map_throwing (gameEntry w hkey) keys of
                    Inl err \<Rightarrow> Inl err
                  | Inr gameEntries \<Rightarrow> Inr (List.map_filter (\<lambda>entry. entry) gameEntries))))"

text \<open>
  The launcher object: its two private fields. \<open>mCache\<close> is \<open>None\<close> while the field is
  unset, then the promise stored in it.
\<close>

record XboxLauncher =
  isXboxInstalled :: bool
  mCache :: "(error + IXboxEntry list) option"

text \<open>The constructor; \<open>win32\<close> says whether \<open>process.platform\<close> is \<open>'win32'\<close>.\<close>

definition XboxLauncher_new :: "winapi \<Rightarrow> bool \<Rightarrow> XboxLauncher" where
  "XboxLauncher_new w win32 =
     \<lparr>isXboxInstalled =
        (if win32
         then (case WithRegOpen w HKEY_CLASSES_ROOT REPOSITORY_PATH (\<lambda>hkey.
                      case RegEnumKeys w hkey of
                        Inl err \<Rightarrow> Inl err
                      | Inr names \<Rightarrow>
                          Inr (find (\<lambda>key. startsWith key XBOXAPP_NAME)
                                 (map (toLowerCase w) names) \<noteq> None)) of
                 Inl err \<Rightarrow> False
               | Inr b \<Rightarrow> b)
         else False),
      mCache = None\<rparr>"

text \<open>
  \<open>allGames\<close> and \<open>reloadGames\<close> take the registry as it is at the time of the call and
  return the launcher as the call leaves it; \<open>allGames\<close> also returns its promise.
\<close>

definition allGames :: "winapi \<Rightarrow> XboxLauncher \<Rightarrow> (error + IXboxEntry list) \<times> XboxLauncher" where
  "allGames w this =
     (if \<not> isXboxInstalled this then (Inr [], this)
      else
        (case mCache this of
           None \<Rightarrow>
             (let p = getGameEntries w (isXboxInstalled this)
              in (p, this\<lparr>mCache := Some p\<rparr>))
         | Some p \<Rightarrow> (p, this)))"

definition reloadGames :: "winapi \<Rightarrow> XboxLauncher \<Rightarrow> XboxLauncher" where
  "reloadGames w this =
     (if \<not> isXboxInstalled this then this
      else this\<lparr>mCache := Some (getGameEntries w (isXboxInstalled this))\<rparr>)"

section \<open>Concrete environments\<close>

text \<open>
  Small file systems, hosts and registries on which the functions above are evaluated.
  \<open>marker_fs\<close> is a file system whose only entry is \<open>D:\.GamingRoot\<close>, with the given
  outcome of \<open>statAsync\<close> and of \<open>readFileAsync\<close>.
\<close>

definition volume_C :: jsstring where
  "volume_C = utf16 ''C:'' @ [0x5C]"

definition volume_D :: jsstring where
  "volume_D = utf16 ''D:'' @ [0x5C]"

definition marker_A :: "byte list" where
  "marker_A = [0x52, 0x47, 0x42, 0x58, 0x01, 0x00, 0x00, 0x00, 0x41, 0x00, 0x00, 0x00]"

definition marker_fs :: "error + fs_stats \<Rightarrow> error + byte list \<Rightarrow> fs" where
  "marker_fs stats bytes =
     \<lparr>statAsync = (\<lambda>p. if p = volume_D @ utf16 ''.GamingRoot''
                        then stats else Inl (SysError ''ENOENT'')),
      readFileAsync = (\<lambda>p. if p = volume_D @ utf16 ''.GamingRoot''
                        then bytes else Inl (SysError ''ENOENT''))\<rparr>"

text \<open>
  Two volumes, each with a marker that decodes to the folder \<open>A\<close>, each holding one
  manifest, in the folder \<open>G\<close>; both manifests carry the identity \<open>Game\<close>.
\<close>

definition game_manifest :: app_manifest where
  "game_manifest =
     \<lparr>Package = Some \<lparr>Identity = Some [\<lparr>attrs = Some \<lparr>Name = Some (utf16 ''Game'')\<rparr>\<rparr>]\<rparr>\<rparr>"

definition two_volumes :: host where
  "two_volumes =
     \<lparr>statAsync = (\<lambda>p. if p = volume_C @ utf16 ''.GamingRoot'' \<or> p = volume_D @ utf16 ''.GamingRoot''
                        then Inr \<lparr>isFile = True\<rparr> else Inl (SysError ''ENOENT'')),
      readFileAsync = (\<lambda>p. if p = volume_C @ utf16 ''.GamingRoot'' \<or> p = volume_D @ utf16 ''.GamingRoot''
                        then Inr marker_A else Inl (SysError ''ENOENT'')),
      searchPaths = [volume_C, volume_D],
      getDriveList = Inr [],
      walk = (\<lambda>rootPath recurse.
                Inr [[rootPath @ [0x5C] @ utf16 ''G'' @ [0x5C] @ utf16 ''appxmanifest.xml'']]),
      basename = (\<lambda>p. rev (takeWhile (\<lambda>c. c \<noteq> 0x5C) (rev p))),
      dirname = (\<lambda>p. rev (drop 1 (dropWhile (\<lambda>c. c \<noteq> 0x5C) (rev p)))),
      join = (\<lambda>a b. a @ [0x5C] @ b),
      APP_MANIFEST = utf16 ''appxmanifest.xml'',
      readFileUtf8 = (\<lambda>p. Inr (utf16 ''xml'')),
      parseStringPromise = (\<lambda>d. Inr game_manifest)\<rparr>"

text \<open>
  A registry given as a table of keys: hive, path, names of the child keys, and values
  (name, type, data). Opening or reading a key or value that is not in the table throws
  \<open>ENOENT\<close>. \<open>path.join\<close> puts a backslash between its arguments and
  \<open>toLowerCase\<close> lowers the letters A to Z.
\<close>

type_synonym reg_node = "REGISTRY_HIVE \<times> string \<times> string list \<times> (string \<times> string \<times> string) list"

fun lower_char :: "char \<Rightarrow> char" where
  "lower_char (Char b0 b1 b2 b3 b4 b5 b6 b7) =
     (if 65 \<le> (of_char (Char b0 b1 b2 b3 b4 b5 b6 b7) :: nat) \<and>
         (of_char (Char b0 b1 b2 b3 b4 b5 b6 b7) :: nat) \<le> 90
      then Char b0 b1 b2 b3 b4 True b6 b7
      else Char b0 b1 b2 b3 b4 b5 b6 b7)"

definition ascii_toLowerCase :: "string \<Rightarrow> string" where
  "ascii_toLowerCase s = map lower_char s"

definition node_at :: "reg_node list \<Rightarrow> REGISTRY_HIVE \<Rightarrow> string \<Rightarrow> reg_node option" where
  "node_at t hive p = find (\<lambda>(hv, q, _, _). hv = hive \<and> q = p) t"

definition node_value :: "reg_node list \<Rightarrow> REGISTRY_HIVE \<Rightarrow> string \<Rightarrow> string \<Rightarrow> error + string" where
  "node_value t hive p n =
     (case node_at t hive p of
        None \<Rightarrow> Inl (SysError ''ENOENT'')
      | Some (_, _, _, vals) \<Rightarrow>
          (case find (\<lambda>(vn, _, _). vn = n) vals of
             None \<Rightarrow> Inl (SysError ''ENOENT'')
           | Some (_, _, d) \<Rightarrow> Inr d))"

definition registry_of :: "reg_node list \<Rightarrow> winapi" where
  "registry_of t =
     \<lparr>RegOpen = (\<lambda>hive p. case node_at t hive p of None \<Rightarrow> Some (SysError ''ENOENT'') | Some _ \<Rightarrow> None),
      RegEnumKeys = (\<lambda>k. case k of
                       Hive _ \<Rightarrow> Inl (SysError ''EINVAL'')
                     | Opened hive p \<Rightarrow>
                         (case node_at t hive p of
                            None \<Rightarrow> Inl (SysError ''ENOENT'')
                          | Some (_, _, children, _) \<Rightarrow> Inr children)),
      RegEnumValues = (\<lambda>k. case k of
                       Hive _ \<Rightarrow> Inl (SysError ''EINVAL'')
                     | Opened hive p \<Rightarrow>
                         (case node_at t hive p of
                            None \<Rightarrow> Inl (SysError ''ENOENT'')
                          | Some (_, _, _, vals) \<Rightarrow>
                              Inr (map (\<lambda>(vn, ty, _). \<lparr>vkey = vn, vtype = ty\<rparr>) vals))),
      RegGetValue = (\<lambda>k sub n. case k of
                       Hive hive \<Rightarrow> node_value t hive sub n
                     | Opened hive p \<Rightarrow> node_value t hive (p @ sep @ sub) n),
      path_join = (\<lambda>a b. a @ sep @ b),
      toLowerCase = ascii_toLowerCase\<rparr>"

text \<open>The package repository key, one package key, and one key of the state cache.\<close>

definition pkg :: "string \<Rightarrow> (string \<times> string \<times> string) list \<Rightarrow> reg_node" where
  "pkg key vals = (HKEY_CLASSES_ROOT, REPOSITORY_PATH @ sep @ key, [], vals)"

definition packages :: "string list \<Rightarrow> reg_node" where
  "packages keys = (HKEY_CLASSES_ROOT, REPOSITORY_PATH, keys, [])"

text \<open>
  \<open>broken_store\<close>: two candidate packages, the first without a \<open>PackageRootFolder\<close>.
  \<open>plain_store\<close> and \<open>bang_store\<close>: one candidate whose first child key under the second
  repository path is \<open>Game\<close>, respectively \<open>Foo.Game_abc!Start\<close>. \<open>ref_store\<close>: the
  resource cache of one package, with three hives. \<open>unresolved_store\<close>: a candidate whose
  display name is a reference, and no resource cache. \<open>mutable_store\<close> and
  \<open>no_record_store\<close>: the state cache with, respectively without, mapping records.
\<close>

definition broken_store :: winapi where
  "broken_store = registry_of
     [packages [''Microsoft.XboxApp_1_x64_8wekyb3d8bbwe'', ''Foo.Bar_1_x64_abc'', ''Foo.Game_1_x64_abc''],
      pkg ''Foo.Bar_1_x64_abc'' [(''DisplayName'', ''REG_SZ'', ''Bar'')],
      pkg ''Foo.Game_1_x64_abc''
        [(''DisplayName'', ''REG_SZ'', ''Game''), (''PackageRootFolder'', ''REG_SZ'', ''C:/Game'')]]"

definition plain_store :: winapi where
  "plain_store = registry_of
     [packages [''Microsoft.XboxApp_1_x64_8wekyb3d8bbwe'', ''Foo.Game_1_x64_abc''],
      (HKEY_CLASSES_ROOT, REPOSITORY_PATH2 @ sep @ ''Foo.Game_1_x64_abc'', [''Game''], []),
      pkg ''Foo.Game_1_x64_abc''
        [(''DisplayName'', ''REG_SZ'', ''Game''), (''PackageRootFolder'', ''REG_SZ'', ''C:/Game'')]]"

definition bang_store :: winapi where
  "bang_store = registry_of
     [packages [''Microsoft.XboxApp_1_x64_8wekyb3d8bbwe'', ''Foo.Game_1_x64_abc''],
      (HKEY_CLASSES_ROOT, REPOSITORY_PATH2 @ sep @ ''Foo.Game_1_x64_abc'', [''Foo.Game_abc!Start''], []),
      pkg ''Foo.Game_1_x64_abc''
        [(''DisplayName'', ''REG_SZ'', ''Game''), (''PackageRootFolder'', ''REG_SZ'', ''C:/Game'')]]"

definition ref_store :: winapi where
  "ref_store = registry_of
     [(HKEY_CLASSES_ROOT, RESOURCES_PATH_replace ''Foo.Game_1_x64_abc'', [''1d5''], []),
      (HKEY_CLASSES_ROOT, RESOURCES_PATH_replace ''Foo.Game_1_x64_abc'' @ sep @ ''1d5'', [''h1'', ''h2'', ''h3''], []),
      (HKEY_CLASSES_ROOT, RESOURCES_PATH_replace ''Foo.Game_1_x64_abc'' @ sep @ ''1d5'' @ sep @ ''h1'', [],
         [(''@ref'', ''REG_SZ'', ''First'')]),
      (HKEY_CLASSES_ROOT, RESOURCES_PATH_replace ''Foo.Game_1_x64_abc'' @ sep @ ''1d5'' @ sep @ ''h2'', [],
         [(''@ref'', ''REG_SZ'', ''Second'')]),
      (HKEY_CLASSES_ROOT, RESOURCES_PATH_replace ''Foo.Game_1_x64_abc'' @ sep @ ''1d5'' @ sep @ ''h3'', [],
         [(''@other'', ''REG_SZ'', ''Third'')])]"

definition unresolved_store :: winapi where
  "unresolved_store = registry_of
     [packages [''Microsoft.XboxApp_1_x64_8wekyb3d8bbwe'', ''Foo.Game_1_x64_abc''],
      pkg ''Foo.Game_1_x64_abc''
        [(''DisplayName'', ''REG_SZ'', ''@ref''), (''PackageRootFolder'', ''REG_SZ'', ''C:/Game'')]]"

definition state_key :: "string \<Rightarrow> (string \<times> string \<times> string) list \<Rightarrow> reg_node" where
  "state_key key vals = (HKEY_LOCAL_MACHINE, MUTABLE_LOCATION_PATH @ sep @ key, [], vals)"

definition mutable_store :: winapi where
  "mutable_store = registry_of
     [(HKEY_LOCAL_MACHINE, MUTABLE_LOCATION_PATH, [''a'', ''b'', ''c''], []),
      state_key ''a'' [(''MutableLink'', ''REG_SZ'', ''C:/Other''), (''MutableLocation'', ''REG_SZ'', ''E:/Other'')],
      state_key ''b'' [(''MutableLink'', ''REG_SZ'', ''C:/Game''), (''MutableLocation'', ''REG_SZ'', ''E:/Game'')],
      state_key ''c'' [(''MutableLink'', ''REG_SZ'', ''C:/Game''), (''MutableLocation'', ''REG_SZ'', ''F:/Game'')]]"



definition rootless_store :: winapi where
  "rootless_store = registry_of
     [packages [''Microsoft.XboxApp_1_x64_8wekyb3d8bbwe'', ''Foo.Game_1_x64_abc''],
      pkg ''Foo.Game_1_x64_abc'' [(''DisplayName'', ''REG_SZ'', ''@ref'')]]"

section \<open>The marker decoder\<close>

lemma length_char16s: "length (char16s bs) = (length bs + 1) div 2"
  by (induction bs rule: char16s.induct) simp_all

text \<open>
  Claim C7. With the marker bytes \<open>52 47 42 58 01 00 00 00 41 00 00 00\<close> in a regular,
  readable file \<open>D:\.GamingRoot\<close> and the volume root \<open>D:\\<close>, the decoder returns
  \<open>D:\A\<close>: the four header units are skipped, the final unit is dropped, and the one
  unit left, read low byte first, is appended to the root.
\<close>

theorem findXboxGamingRootPath_marker_A:
  assumes "statAsync env (utf16 ''D:'' @ [0x5C] @ utf16 ''.GamingRoot'') = Inr stats"
    and "isFile stats"
    and "readFileAsync env (utf16 ''D:'' @ [0x5C] @ utf16 ''.GamingRoot'') =
           Inr [0x52, 0x47, 0x42, 0x58, 0x01, 0x00, 0x00, 0x00, 0x41, 0x00, 0x00, 0x00]"
  shows "findXboxGamingRootPath env (utf16 ''D:'' @ [0x5C]) =
           Inr (Some (utf16 ''D:'' @ [0x5C] @ utf16 ''A''))"
  using assms
  by (simp add: findXboxGamingRootPath_def findXboxGamingRootPath_try_def
      CHAR16_PATH_OFFSET_def slice_to_last_def fromCharCode_def utf16_def)

theorem findXboxGamingRootPath_marker_A_witness:
  "findXboxGamingRootPath (marker_fs (Inr \<lparr>isFile = True\<rparr>) (Inr marker_A)) volume_D =
     Inr (Some [0x44, 0x3A, 0x5C, 0x41])"
  using findXboxGamingRootPath_marker_A
    [of "marker_fs (Inr \<lparr>isFile = True\<rparr>) (Inr marker_A)" "\<lparr>isFile = True\<rparr>"]
  by (simp add: marker_fs_def marker_A_def volume_D_def utf16_def)

text \<open>
  Claim C9. \<open>findXboxGamingRootPath\<close> never rejects: for every file system and every
  drive root its promise resolves. On each failure path the value is \<open>null\<close>: an
  exception of any kind in the \<open>try\<close> block, a failing \<open>statAsync\<close> (absent file, drive
  not ready), a path that is not a file, a failing read, an odd number of bytes, and
  fewer than five decoded units.
\<close>

theorem findXboxGamingRootPath_never_rejects:
  "(\<exists>r. findXboxGamingRootPath env root = Inr r) \<and>
   (findXboxGamingRootPath_try env root = Inl e \<longrightarrow>
      findXboxGamingRootPath env root = Inr None) \<and>
   (statAsync env (root @ utf16 ''.GamingRoot'') = Inl e \<longrightarrow>
      findXboxGamingRootPath env root = Inr None) \<and>
   (statAsync env (root @ utf16 ''.GamingRoot'') = Inr stats \<and> \<not> isFile stats \<longrightarrow>
      findXboxGamingRootPath env root = Inr None) \<and>
   (statAsync env (root @ utf16 ''.GamingRoot'') = Inr stats \<and> isFile stats \<and>
    readFileAsync env (root @ utf16 ''.GamingRoot'') = Inl e \<longrightarrow>
      findXboxGamingRootPath env root = Inr None) \<and>
   (statAsync env (root @ utf16 ''.GamingRoot'') = Inr stats \<and> isFile stats \<and>
    readFileAsync env (root @ utf16 ''.GamingRoot'') = Inr bytes \<and> odd (length bytes) \<longrightarrow>
      findXboxGamingRootPath env root = Inr None) \<and>
   (statAsync env (root @ utf16 ''.GamingRoot'') = Inr stats \<and> isFile stats \<and>
    readFileAsync env (root @ utf16 ''.GamingRoot'') = Inr bytes \<and>
    length (char16s bytes) < 5 \<longrightarrow>
      findXboxGamingRootPath env root = Inr None)"
  by (auto simp: findXboxGamingRootPath_def findXboxGamingRootPath_try_def Let_def
      CHAR16_PATH_OFFSET_def odd_iff_mod_2_eq_one split: sum.splits)

theorem findXboxGamingRootPath_never_rejects_witness:
  "findXboxGamingRootPath (marker_fs (Inl (SysError ''ENOENT'')) (Inl (SysError ''ENOENT'')))
     volume_D = Inr None \<and>
   findXboxGamingRootPath (marker_fs (Inr \<lparr>isFile = False\<rparr>) (Inl (SysError ''EISDIR'')))
     volume_D = Inr None \<and>
   findXboxGamingRootPath (marker_fs (Inr \<lparr>isFile = True\<rparr>) (Inl (SysError ''EIO'')))
     volume_D = Inr None \<and>
   findXboxGamingRootPath (marker_fs (Inr \<lparr>isFile = True\<rparr>) (Inr [0x52, 0x47, 0x42]))
     volume_D = Inr None \<and>
   findXboxGamingRootPath
     (marker_fs (Inr \<lparr>isFile = True\<rparr>) (Inr [0x52, 0x47, 0x42, 0x58, 0x01, 0x00, 0x00, 0x00]))
     volume_D = Inr None"
proof -
  let ?absent = "marker_fs (Inl (SysError ''ENOENT'')) (Inl (SysError ''ENOENT''))"
  let ?folder = "marker_fs (Inr \<lparr>isFile = False\<rparr>) (Inl (SysError ''EISDIR''))"
  let ?unreadable = "marker_fs (Inr \<lparr>isFile = True\<rparr>) (Inl (SysError ''EIO''))"
  let ?odd = "marker_fs (Inr \<lparr>isFile = True\<rparr>) (Inr [0x52, 0x47, 0x42])"
  let ?short = "marker_fs (Inr \<lparr>isFile = True\<rparr>)
                  (Inr [0x52, 0x47, 0x42, 0x58, 0x01, 0x00, 0x00, 0x00])"
  have "findXboxGamingRootPath ?absent volume_D = Inr None"
    using findXboxGamingRootPath_never_rejects [of ?absent volume_D "SysError ''ENOENT''"]
    by (simp add: marker_fs_def)
  moreover have "findXboxGamingRootPath ?folder volume_D = Inr None"
    using findXboxGamingRootPath_never_rejects
      [of ?folder volume_D _ "\<lparr>isFile = False\<rparr>"]
    by (simp add: marker_fs_def)
  moreover have "findXboxGamingRootPath ?unreadable volume_D = Inr None"
    using findXboxGamingRootPath_never_rejects
      [of ?unreadable volume_D "SysError ''EIO''" "\<lparr>isFile = True\<rparr>"]
    by (simp add: marker_fs_def)
  moreover have "findXboxGamingRootPath ?odd volume_D = Inr None"
    using findXboxGamingRootPath_never_rejects
      [of ?odd volume_D _ "\<lparr>isFile = True\<rparr>" "[0x52, 0x47, 0x42]"]
    by (simp add: marker_fs_def)
  moreover have "findXboxGamingRootPath ?short volume_D = Inr None"
    using findXboxGamingRootPath_never_rejects
      [of ?short volume_D _ "\<lparr>isFile = True\<rparr>" "[0x52, 0x47, 0x42, 0x58, 0x01, 0x00, 0x00, 0x00]"]
    by (simp add: marker_fs_def)
  ultimately show ?thesis by simp
qed

text \<open>
  Claim C2 says that an odd byte length reaches the caller as a decode error distinct
  from the outcome "no marker". It does not: with three bytes in the marker file the
  caller receives \<open>null\<close>, the value it also receives when the file is absent.
\<close>

theorem odd_marker_counterexample:
  "odd (length [0x52 :: byte, 0x47, 0x42]) \<and>
   findXboxGamingRootPath (marker_fs (Inr \<lparr>isFile = True\<rparr>) (Inr [0x52, 0x47, 0x42])) volume_D =
     Inr None \<and>
   findXboxGamingRootPath (marker_fs (Inl (SysError ''ENOENT'')) (Inl (SysError ''ENOENT'')))
     volume_D = Inr None"
  by (simp add: findXboxGamingRootPath_def findXboxGamingRootPath_try_def marker_fs_def)

text \<open>
  Claim C2, amended. For every marker file whose byte length is odd, the \<open>try\<close> block
  throws the error "Found a non-even number of bytes", which carries the path of the
  marker file, and decodes nothing; the \<open>catch\<close> clause of the same function swallows
  it, and the caller receives \<open>null\<close>.
\<close>

theorem odd_marker_caught:
  assumes "statAsync env (root @ utf16 ''.GamingRoot'') = Inr stats"
    and "isFile stats"
    and "readFileAsync env (root @ utf16 ''.GamingRoot'') = Inr bytes"
    and "odd (length bytes)"
  shows "findXboxGamingRootPath_try env root = Inl (NonEvenBytes (root @ utf16 ''.GamingRoot'')) \<and>
         findXboxGamingRootPath env root = Inr None"
  using assms
  by (simp add: findXboxGamingRootPath_def findXboxGamingRootPath_try_def
      odd_iff_mod_2_eq_one)

theorem odd_marker_caught_witness:
  "findXboxGamingRootPath_try (marker_fs (Inr \<lparr>isFile = True\<rparr>) (Inr [0x52, 0x47, 0x42])) volume_D =
     Inl (NonEvenBytes (volume_D @ utf16 ''.GamingRoot'')) \<and>
   findXboxGamingRootPath (marker_fs (Inr \<lparr>isFile = True\<rparr>) (Inr [0x52, 0x47, 0x42])) volume_D =
     Inr None"
  using odd_marker_caught
    [of "marker_fs (Inr \<lparr>isFile = True\<rparr>) (Inr [0x52, 0x47, 0x42])" volume_D
        "\<lparr>isFile = True\<rparr>" "[0x52, 0x47, 0x42]"]
  by (simp add: marker_fs_def)

section \<open>The volume scan\<close>

lemma manifests_loop_append:
  "manifests_loop h m (ms1 @ ms2) = manifests_loop h (manifests_loop h m ms1) ms2"
  by (induction ms1 arbitrary: m) (simp_all add: Let_def)

lemma manifests_loop_other:
  "\<forall>y \<in> set ms. identity_name (getAppManifestData h (dirname h y)) \<noteq> Some a \<Longrightarrow>
   manifests_loop h m ms a = m a"
  by (induction ms arbitrary: m) (auto simp: Let_def set_property_def split: option.splits)

lemma manifests_loop_proto:
  "manifests_loop h m ms (utf16 ''__proto__'') = m (utf16 ''__proto__'')"
  by (induction ms arbitrary: m) (auto simp: Let_def set_property_def split: option.splits)

lemma gamingRoots_loop_proto:
  "gamingRoots_loop h m rs = Inr m' \<Longrightarrow> m' (utf16 ''__proto__'') = m (utf16 ''__proto__'')"
  by (induction rs arbitrary: m) (auto simp: manifests_loop_proto split: sum.splits)

lemma gamingRoots_loop_append:
  "gamingRoots_loop h m (rs1 @ rs2) =
     (case gamingRoots_loop h m rs1 of
        Inl err \<Rightarrow> Inl err
      | Inr m' \<Rightarrow> gamingRoots_loop h m' rs2)"
  by (induction rs1 arbitrary: m) (simp_all split: sum.splits)

lemma gamingRoots_loop_other:
  "gamingRoots_loop h m rs = Inr m' \<Longrightarrow>
   \<forall>r \<in> set rs. \<forall>ms. findManifests h r True = Inr ms \<longrightarrow>
     (\<forall>y \<in> set ms. identity_name (getAppManifestData h (dirname h y)) \<noteq> Some a) \<Longrightarrow>
   m' a = m a"
proof (induction rs arbitrary: m)
  case Nil
  then show ?case by simp
next
  case (Cons r rs)
  from Cons.prems(1) obtain ms where ms: "findManifests h r True = Inr ms"
    and rest: "gamingRoots_loop h (manifests_loop h m ms) rs = Inr m'"
    by (auto split: sum.splits)
  from Cons.prems(2) ms
  have here: "\<forall>y \<in> set ms. identity_name (getAppManifestData h (dirname h y)) \<noteq> Some a"
    by simp
  have "m' a = manifests_loop h m ms a"
    using Cons.IH [OF rest] Cons.prems(2) by simp
  with here show ?case by (simp add: manifests_loop_other)
qed

text \<open>The two-volume host, step by step.\<close>

lemma two_volumes_fields:
  "walk two_volumes = (\<lambda>rootPath recurse.
     Inr [[rootPath @ [0x5C] @ utf16 ''G'' @ [0x5C] @ utf16 ''appxmanifest.xml'']])"
  "basename two_volumes = (\<lambda>p. rev (takeWhile (\<lambda>c. c \<noteq> 0x5C) (rev p)))"
  "dirname two_volumes = (\<lambda>p. rev (drop 1 (dropWhile (\<lambda>c. c \<noteq> 0x5C) (rev p))))"
  "join two_volumes = (\<lambda>a b. a @ [0x5C] @ b)"
  "APP_MANIFEST two_volumes = utf16 ''appxmanifest.xml''"
  "readFileUtf8 two_volumes = (\<lambda>p. Inr (utf16 ''xml''))"
  "parseStringPromise two_volumes = (\<lambda>d. Inr game_manifest)"
  by (simp_all add: two_volumes_def)

lemma two_volumes_roots:
  "findXboxGamingRootPaths two_volumes = Inr [volume_C @ utf16 ''A'', volume_D @ utf16 ''A'']"
  by (simp add: findXboxGamingRootPaths_def two_volumes_def fs.defs host.defs
      findXboxGamingRootPath_def findXboxGamingRootPath_try_def marker_A_def
      CHAR16_PATH_OFFSET_def slice_to_last_def fromCharCode_def utf16_def
      volume_C_def volume_D_def)

lemma two_volumes_manifests:
  "findManifests two_volumes r True =
     Inr [r @ [0x5C] @ utf16 ''G'' @ [0x5C] @ utf16 ''appxmanifest.xml'']"
  by (simp add: findManifests_def two_volumes_fields utf16_def)

lemma two_volumes_dirname:
  "dirname two_volumes (r @ [0x5C] @ utf16 ''G'' @ [0x5C] @ utf16 ''appxmanifest.xml'') =
     r @ [0x5C] @ utf16 ''G''"
  by (simp add: two_volumes_fields utf16_def)

lemma two_volumes_identity:
  "identity_name (getAppManifestData two_volumes q) = Some (utf16 ''Game'')"
  by (simp add: two_volumes_fields identity_name_def getAppManifestData_def game_manifest_def)

lemma two_volumes_games:
  "findInstalledGames two_volumes =
     Inr [utf16 ''Game'' \<mapsto> volume_D @ utf16 ''A'' @ [0x5C] @ utf16 ''G'']"
  by (simp add: findInstalledGames_def two_volumes_roots findManifests_def identity_name_def
      getAppManifestData_def game_manifest_def two_volumes_fields set_property_def utf16_def
      volume_C_def volume_D_def)

text \<open>
  Claim C6 says that an identity found on more than one volume keeps the install path of
  the earlier volume. It does not: with the identity \<open>Game\<close> under \<open>C:\A\G\<close> on the first
  volume and under \<open>D:\A\G\<close> on the second, the map holds \<open>D:\A\G\<close>.
\<close>

theorem findInstalledGames_earlier_volume_counterexample:
  "findXboxGamingRootPaths two_volumes = Inr [volume_C @ utf16 ''A'', volume_D @ utf16 ''A''] \<and>
   manifests_loop two_volumes Map.empty
     [volume_C @ utf16 ''A'' @ [0x5C] @ utf16 ''G'' @ [0x5C] @ utf16 ''appxmanifest.xml'']
     (utf16 ''Game'') = Some (volume_C @ utf16 ''A'' @ [0x5C] @ utf16 ''G'') \<and>
   findInstalledGames two_volumes =
     Inr [utf16 ''Game'' \<mapsto> volume_D @ utf16 ''A'' @ [0x5C] @ utf16 ''G''] \<and>
   volume_D @ utf16 ''A'' @ [0x5C] @ utf16 ''G'' \<noteq> volume_C @ utf16 ''A'' @ [0x5C] @ utf16 ''G''"
proof -
  have "manifests_loop two_volumes Map.empty
     [volume_C @ utf16 ''A'' @ [0x5C] @ utf16 ''G'' @ [0x5C] @ utf16 ''appxmanifest.xml'']
     (utf16 ''Game'') = Some (volume_C @ utf16 ''A'' @ [0x5C] @ utf16 ''G'')"
    using two_volumes_dirname [of "volume_C @ utf16 ''A''"]
    by (simp add: two_volumes_identity set_property_def utf16_def)
  moreover have "volume_D @ utf16 ''A'' @ [0x5C] @ utf16 ''G'' \<noteq>
      volume_C @ utf16 ''A'' @ [0x5C] @ utf16 ''G''"
    by (simp add: volume_C_def volume_D_def utf16_def)
  ultimately show ?thesis
    using two_volumes_roots two_volumes_games by simp
qed

text \<open>
  Claim C6, amended. The map holds, for every identity other than \<open>__proto__\<close>, the
  install path written last: when a manifest \<open>x\<close> of a gaming root \<open>r\<close> carries the
  identity \<open>a\<close>, and neither a later manifest of \<open>r\<close> nor a manifest of a
  later-enumerated gaming root carries \<open>a\<close>, then the map sends \<open>a\<close> to the directory of
  \<open>x\<close>, whatever earlier volumes held for \<open>a\<close>. A later volume overwrites an earlier
  one. The identity \<open>__proto__\<close> is never stored.
\<close>

theorem findInstalledGames_last_write_wins:
  assumes roots: "findXboxGamingRootPaths h = Inr (rs1 @ r # rs2)"
    and res: "findInstalledGames h = Inr m"
    and found: "findManifests h r True = Inr (ms1 @ x # ms2)"
    and ident: "identity_name (getAppManifestData h (dirname h x)) = Some a" "a \<noteq> []"
    and plain: "a \<noteq> utf16 ''__proto__''"
    and later_here: "\<forall>y \<in> set ms2. identity_name (getAppManifestData h (dirname h y)) \<noteq> Some a"
    and later_roots: "\<forall>r' \<in> set rs2. \<forall>ms. findManifests h r' True = Inr ms \<longrightarrow>
        (\<forall>y \<in> set ms. identity_name (getAppManifestData h (dirname h y)) \<noteq> Some a)"
  shows "m a = Some (dirname h x) \<and> m (utf16 ''__proto__'') = None"
proof -
  from roots res have all: "gamingRoots_loop h Map.empty (rs1 @ r # rs2) = Inr m"
    by (simp add: findInstalledGames_def)
  then obtain m1 where m1: "gamingRoots_loop h Map.empty rs1 = Inr m1"
    and tail: "gamingRoots_loop h m1 (r # rs2) = Inr m"
    by (auto simp: gamingRoots_loop_append split: sum.splits)
  define m2 where "m2 = manifests_loop h m1 (ms1 @ x # ms2)"
  from tail found have rest: "gamingRoots_loop h m2 rs2 = Inr m"
    by (simp add: m2_def)
  have "m2 a = manifests_loop h (manifests_loop h m1 ms1) [x] a"
    unfolding m2_def using manifests_loop_append [of h m1 ms1 "x # ms2"]
      manifests_loop_append [of h "manifests_loop h m1 ms1" "[x]" ms2]
      manifests_loop_other [OF later_here]
    by simp
  also have "\<dots> = Some (dirname h x)"
    using ident plain by (simp add: Let_def set_property_def)
  finally have "m2 a = Some (dirname h x)" .
  moreover have "m a = m2 a"
    by (rule gamingRoots_loop_other [OF rest later_roots])
  moreover have "m (utf16 ''__proto__'') = None"
    using gamingRoots_loop_proto [OF all] by simp
  ultimately show ?thesis by simp
qed

theorem findInstalledGames_last_write_wins_witness:
  "findXboxGamingRootPaths two_volumes = Inr [volume_C @ utf16 ''A'', volume_D @ utf16 ''A''] \<and>
   identity_name (getAppManifestData two_volumes (volume_C @ utf16 ''A'' @ [0x5C] @ utf16 ''G'')) =
     Some (utf16 ''Game'') \<and>
   (\<exists>m. findInstalledGames two_volumes = Inr m \<and>
        m (utf16 ''Game'') = Some (volume_D @ utf16 ''A'' @ [0x5C] @ utf16 ''G'') \<and>
        m (utf16 ''__proto__'') = None)"
proof -
  let ?x = "(volume_D @ utf16 ''A'') @ [0x5C] @ utf16 ''G'' @ [0x5C] @ utf16 ''appxmanifest.xml''"
  let ?m = "[utf16 ''Game'' \<mapsto> volume_D @ utf16 ''A'' @ [0x5C] @ utf16 ''G'']"
  have roots: "findXboxGamingRootPaths two_volumes =
      Inr ([volume_C @ utf16 ''A''] @ (volume_D @ utf16 ''A'') # [])"
    by (simp add: two_volumes_roots)
  have found: "findManifests two_volumes (volume_D @ utf16 ''A'') True = Inr ([] @ ?x # [])"
    by (simp add: two_volumes_manifests)
  have ne: "utf16 ''Game'' \<noteq> []"
    by (simp add: utf16_def)
  have plain: "utf16 ''Game'' \<noteq> utf16 ''__proto__''"
    by (simp add: utf16_def)
  have last_write: "?m (utf16 ''Game'') = Some (dirname two_volumes ?x) \<and>
      ?m (utf16 ''__proto__'') = None"
    by (rule findInstalledGames_last_write_wins
        [OF roots two_volumes_games found two_volumes_identity ne plain]) simp_all
  have "dirname two_volumes ?x = (volume_D @ utf16 ''A'') @ [0x5C] @ utf16 ''G''"
    by (rule two_volumes_dirname)
  with last_write
  have "?m (utf16 ''Game'') = Some ((volume_D @ utf16 ''A'') @ [0x5C] @ utf16 ''G'') \<and>
      ?m (utf16 ''__proto__'') = None"
    by (simp only:)
  then have "\<exists>m. findInstalledGames two_volumes = Inr m \<and>
        m (utf16 ''Game'') = Some (volume_D @ utf16 ''A'' @ [0x5C] @ utf16 ''G'') \<and>
        m (utf16 ''__proto__'') = None"
    using two_volumes_games by simp
  then show ?thesis
    using two_volumes_roots two_volumes_identity by simp
qed

section \<open>String operations\<close>

lemma split_not_Nil: "split s c \<noteq> []"
  by (induction s) (auto split: list.splits)

lemma split_absent: "c \<notin> set s \<Longrightarrow> split s c = [s]"
  by (induction s) auto

lemma length_split_count: "length (split s c) = Suc (length (filter (\<lambda>x. x = c) s))"
proof (induction s)
  case Nil
  then show ?case by simp
next
  case (Cons x xs)
  then show ?case
    using split_not_Nil [of xs c]
    by (cases "split xs c") auto
qed

lemma length_split: "1 < length (split s c) \<longleftrightarrow> c \<in> set s"
proof -
  have "filter (\<lambda>x. x = c) s \<noteq> [] \<longleftrightarrow> c \<in> set s"
    by (auto simp: filter_empty_conv)
  then show ?thesis
    by (simp add: length_split_count)
qed

lemma last_split: "last (split s c) = rev (takeWhile (\<lambda>x. x \<noteq> c) (rev s))"
proof (induction s)
  case Nil
  then show ?case by simp
next
  case (Cons x xs)
  show ?case
  proof (cases "x = c")
    case True
    then show ?thesis
      using Cons split_not_Nil [of xs c]
      by (auto simp: takeWhile_append)
  next
    case False
    show ?thesis
    proof (cases "c \<in> set xs")
      case True
      then have "1 < length (split xs c)" by (simp only: length_split)
      then obtain seg s2 segs where "split xs c = seg # s2 # segs"
        by (cases "split xs c"; cases "tl (split xs c)") auto
      with False Cons True show ?thesis
        by (auto simp: takeWhile_append)
    next
      case notin: False
      with False show ?thesis
        by (simp add: split_absent takeWhile_append)
    qed
  qed
qed

text \<open>A replacement without a dollar sign is inserted as it is.\<close>

lemma substitution_plain:
  "CHR ''$'' \<notin> set replacement \<Longrightarrow> substitution matched before after replacement = replacement"
  by (induction matched before after replacement rule: substitution.induct) auto

section \<open>Evaluating the concrete registries\<close>

lemmas fixture_defs = registry_of_def node_at_def node_value_def pkg_def packages_def state_key_def
  ascii_toLowerCase_def REPOSITORY_PATH_def REPOSITORY_PATH2_def APPMODEL_def sep_def
  MUTABLE_LOCATION_PATH_def RESOURCES_PATH_replace_def RESOURCES_PATH_before_def
  RESOURCES_PATH_after_def

lemmas store_defs = getGameEntries_def WithRegOpen_def unignored_def IGNORABLE_def startsWith_def
  gameEntry_def getFirstKeyName_def getKeyNames_def resolveMutableLocation_def resolveRef_def
  resolveRef_hive_def lastIndexOf_def substr_def substring_def STORE_ID_def

lemma plain_entries: "getGameEntries plain_store True =
    Inr [\<lparr>appid = ''Foo.Game'', publisherId = ''abc'', executionName = ''App'',
         gamePath = ''C:/Game'', name = Some ''Game'', gameStoreId = ''xbox''\<rparr>]"
  by (simp add: plain_store_def store_defs fixture_defs)

lemma bang_entries: "getGameEntries bang_store True =
    Inr [\<lparr>appid = ''Foo.Game'', publisherId = ''abc'', executionName = ''Start'',
         gamePath = ''C:/Game'', name = Some ''Game'', gameStoreId = ''xbox''\<rparr>]"
  by (simp add: bang_store_def store_defs fixture_defs)

lemma unresolved_entries: "getGameEntries unresolved_store True =
    Inr [\<lparr>appid = ''Foo.Game'', publisherId = ''abc'', executionName = ''App'',
         gamePath = ''C:/Game'', name = None, gameStoreId = ''xbox''\<rparr>]"
  by (simp add: unresolved_store_def store_defs fixture_defs)

lemma ref_second: "resolveRef ref_store ''Foo.Game_1_x64_abc'' ''@ref'' = Some ''Second''"
  by (simp add: ref_store_def store_defs fixture_defs)

lemma mutable_first: "resolveMutableLocation mutable_store ''C:/Game'' = Some ''E:/Game''"
  by (simp add: mutable_store_def store_defs fixture_defs)


lemma new_plain: "XboxLauncher_new plain_store True = \<lparr>isXboxInstalled = True, mCache = None\<rparr>"
  by (simp add: XboxLauncher_new_def plain_store_def WithRegOpen_def XBOXAPP_NAME_def startsWith_def fixture_defs)

lemma plain_gameEntry:
  "gameEntry plain_store (Opened HKEY_CLASSES_ROOT REPOSITORY_PATH) ''Foo.Game_1_x64_abc'' =
     Inr (Some \<lparr>appid = ''Foo.Game'', publisherId = ''abc'', executionName = ''App'',
          gamePath = ''C:/Game'', name = Some ''Game'', gameStoreId = ''xbox''\<rparr>)"
  by (simp add: plain_store_def store_defs fixture_defs)

lemma bang_gameEntry:
  "gameEntry bang_store (Opened HKEY_CLASSES_ROOT REPOSITORY_PATH) ''Foo.Game_1_x64_abc'' =
     Inr (Some \<lparr>appid = ''Foo.Game'', publisherId = ''abc'', executionName = ''Start'',
          gamePath = ''C:/Game'', name = Some ''Game'', gameStoreId = ''xbox''\<rparr>)"
  by (simp add: bang_store_def store_defs fixture_defs)

lemma plain_firstKeyName:
  "getFirstKeyName plain_store HKEY_CLASSES_ROOT
     (path_join plain_store REPOSITORY_PATH2 ''Foo.Game_1_x64_abc'') = Some ''Game''"
  by (simp add: plain_store_def store_defs fixture_defs)

lemma bang_firstKeyName:
  "getFirstKeyName bang_store HKEY_CLASSES_ROOT
     (path_join bang_store REPOSITORY_PATH2 ''Foo.Game_1_x64_abc'') = Some ''Foo.Game_abc!Start''"
  by (simp add: bang_store_def store_defs fixture_defs)

lemma ref_firstKey:
  "getFirstKeyName ref_store HKEY_CLASSES_ROOT (RESOURCES_PATH_replace ''Foo.Game_1_x64_abc'') = Some ''1d5''"
  by (simp add: ref_store_def store_defs fixture_defs)

lemma ref_hives:
  "getKeyNames ref_store HKEY_CLASSES_ROOT
     (path_join ref_store (RESOURCES_PATH_replace ''Foo.Game_1_x64_abc'') ''1d5'') None = [''h1'', ''h2'', ''h3'']"
  by (simp add: ref_store_def store_defs fixture_defs)

lemma ref_hive_h1:
  "resolveRef_hive ref_store (path_join ref_store (RESOURCES_PATH_replace ''Foo.Game_1_x64_abc'') ''1d5'')
     ''@ref'' None ''h1'' = Some ''First''"
  by (simp add: ref_store_def store_defs fixture_defs)

lemma ref_hive_h2:
  "resolveRef_hive ref_store (path_join ref_store (RESOURCES_PATH_replace ''Foo.Game_1_x64_abc'') ''1d5'')
     ''@ref'' None ''h2'' = Some ''Second''"
  by (simp add: ref_store_def store_defs fixture_defs)

lemma ref_hive_h3:
  "resolveRef_hive ref_store (path_join ref_store (RESOURCES_PATH_replace ''Foo.Game_1_x64_abc'') ''1d5'')
     ''@ref'' None ''h3'' = None"
  by (simp add: ref_store_def store_defs fixture_defs)

section \<open>Indirect display names (resolveRef)\<close>

lemma resolveRef_hive_cases:
  "resolveRef_hive w hp dn n h =
     (case resolveRef_hive w hp dn None h of Some v \<Rightarrow> Some v | None \<Rightarrow> n)"
  by (simp add: resolveRef_hive_def WithRegOpen_def Let_def split: option.splits sum.splits)

lemma resolveRef_hive_yields:
  "resolveRef_hive w hp dn None h = Some v \<longleftrightarrow>
     RegOpen w HKEY_CLASSES_ROOT (path_join w hp h) = None \<and>
     (\<exists>vals. RegEnumValues w (Opened HKEY_CLASSES_ROOT (path_join w hp h)) = Inr vals \<and>
        dn \<in> set (map vkey vals)) \<and>
     RegGetValue w (Hive HKEY_CLASSES_ROOT) (path_join w hp h) dn = Inr v"
  by (auto simp: resolveRef_hive_def WithRegOpen_def Let_def split: option.splits sum.splits)

lemma foldl_resolveRef_hive_none:
  "\<forall>h \<in> set hs. resolveRef_hive w hp dn None h = None \<Longrightarrow>
   foldl (resolveRef_hive w hp dn) n hs = n"
proof (induction hs arbitrary: n)
  case Nil
  then show ?case by simp
next
  case (Cons h hs)
  then have "resolveRef_hive w hp dn n h = n"
    using resolveRef_hive_cases [of w hp dn n h] by simp
  with Cons show ?case by simp
qed

text \<open>
  Claim C3 says that the first hive holding a value named with the reference decides the
  name. It does not: with the hives \<open>h1\<close>, \<open>h2\<close>, \<open>h3\<close> in this order, where \<open>h1\<close>
  yields \<open>First\<close> and \<open>h2\<close> yields \<open>Second\<close> for the reference, the result is
  \<open>Second\<close>.
\<close>

theorem resolveRef_first_match_counterexample:
  "getKeyNames ref_store HKEY_CLASSES_ROOT
     (path_join ref_store (RESOURCES_PATH_replace ''Foo.Game_1_x64_abc'') ''1d5'') None = [''h1'', ''h2'', ''h3''] \<and>
   resolveRef_hive ref_store (path_join ref_store (RESOURCES_PATH_replace ''Foo.Game_1_x64_abc'') ''1d5'')
     ''@ref'' None ''h1'' = Some ''First'' \<and>
   resolveRef ref_store ''Foo.Game_1_x64_abc'' ''@ref'' = Some ''Second''"
  by (simp add: ref_hives ref_hive_h1 ref_second)

text \<open>
  Claim C3, amended. The last hive, in enumeration order, that yields a value named with
  the reference decides the name: when the hive \<open>h\<close> yields \<open>v\<close> (it opens, its values
  list the reference and the value is read) and no later hive yields a value, the result
  is \<open>v\<close>, whatever the earlier hives yield. A later match overwrites an earlier one.
\<close>

theorem resolveRef_last_match:
  assumes "getFirstKeyName w HKEY_CLASSES_ROOT (RESOURCES_PATH_replace packageId) = Some firstKey"
    and "firstKey \<noteq> []"
    and "getKeyNames w HKEY_CLASSES_ROOT
           (path_join w (RESOURCES_PATH_replace packageId) firstKey) None = hs1 @ h # hs2"
    and "resolveRef_hive w (path_join w (RESOURCES_PATH_replace packageId) firstKey)
           displayName None h = Some v"
    and "\<forall>h' \<in> set hs2.
           resolveRef_hive w (path_join w (RESOURCES_PATH_replace packageId) firstKey)
             displayName None h' = None"
  shows "resolveRef w packageId displayName = Some v"
proof -
  let ?f = "resolveRef_hive w (path_join w (RESOURCES_PATH_replace packageId) firstKey) displayName"
  have "?f (foldl ?f None hs1) h = Some v"
    using assms(4) resolveRef_hive_cases [of w _ displayName "foldl ?f None hs1" h] by simp
  then have "foldl ?f None (hs1 @ h # hs2) = Some v"
    using foldl_resolveRef_hive_none [OF assms(5)] by simp
  with assms(1-3) show ?thesis
    by (simp add: resolveRef_def Let_def)
qed

theorem resolveRef_last_match_witness:
  "resolveRef_hive ref_store (path_join ref_store (RESOURCES_PATH_replace ''Foo.Game_1_x64_abc'') ''1d5'')
     ''@ref'' None ''h1'' = Some ''First'' \<and>
   resolveRef ref_store ''Foo.Game_1_x64_abc'' ''@ref'' = Some ''Second''"
proof -
  have hs: "getKeyNames ref_store HKEY_CLASSES_ROOT
     (path_join ref_store (RESOURCES_PATH_replace ''Foo.Game_1_x64_abc'') ''1d5'') None = [''h1''] @ ''h2'' # [''h3'']"
    by (simp add: ref_hives)
  have later: "\<forall>h' \<in> set [''h3''].
     resolveRef_hive ref_store (path_join ref_store (RESOURCES_PATH_replace ''Foo.Game_1_x64_abc'') ''1d5'')
       ''@ref'' None h' = None"
    by (simp add: ref_hive_h3)
  have "''1d5'' \<noteq> ''''" by simp
  from resolveRef_last_match [OF ref_firstKey this hs ref_hive_h2 later] ref_hive_h1
  show ?thesis by simp
qed

section \<open>The mutable location (resolveMutableLocation)\<close>








section \<open>Package enumeration (getGameEntries)\<close>

lemma map_throwing_mem:
  "map_throwing f xs = Inr ys \<Longrightarrow> x \<in> set xs \<Longrightarrow> \<exists>y \<in> set ys. f x = Inr y"
proof (induction xs arbitrary: ys)
  case Nil
  then show ?case by simp
next
  case (Cons a xs)
  then show ?case
    by (auto split: sum.splits)
qed

lemma map_filter_mem: "Some e \<in> set ys \<Longrightarrow> e \<in> set (List.map_filter (\<lambda>entry. entry) ys)"
  by (induction ys) (auto simp: List.map_filter_simps split: option.splits)

lemma map_throwing_throws:
  "x \<in> set xs \<Longrightarrow> f x = Inl err \<Longrightarrow> \<exists>err'. map_throwing f xs = Inl err'"
  by (induction xs) (auto split: sum.splits)

text \<open>
  In every registry, a candidate whose display name is read and whose
  \<open>PackageRootFolder\<close> read throws makes the callback throw, and the whole enumeration
  reject.
\<close>

lemma getGameEntries_rejects:
  assumes "RegOpen w HKEY_CLASSES_ROOT REPOSITORY_PATH = None"
    and "RegEnumKeys w (Opened HKEY_CLASSES_ROOT REPOSITORY_PATH) = Inr names"
    and "key \<in> set (unignored w names)"
    and "RegGetValue w (Hive HKEY_CLASSES_ROOT) (REPOSITORY_PATH @ sep @ key) ''DisplayName'' =
           Inr displayName"
    and "RegGetValue w (Opened HKEY_CLASSES_ROOT REPOSITORY_PATH) key ''PackageRootFolder'' =
           Inl err"
  shows "gameEntry w (Opened HKEY_CLASSES_ROOT REPOSITORY_PATH) key = Inl err \<and>
         (\<exists>err'. getGameEntries w True = Inl err')"
proof -
  have thrown: "gameEntry w (Opened HKEY_CLASSES_ROOT REPOSITORY_PATH) key = Inl err"
    using assms(4,5) by (simp add: gameEntry_def Let_def)
  from map_throwing_throws
    [of key "unignored w names" "gameEntry w (Opened HKEY_CLASSES_ROOT REPOSITORY_PATH)" err]
    assms(3) thrown
  obtain err' where
    "map_throwing (gameEntry w (Opened HKEY_CLASSES_ROOT REPOSITORY_PATH)) (unignored w names) =
       Inl err'"
    by blast
  with assms(1,2) have "getGameEntries w True = Inl err'"
    by (simp add: getGameEntries_def WithRegOpen_def Let_def)
  with thrown show ?thesis by blast
qed

text \<open>
  Claim C1 says that a throwing read of \<open>PackageRootFolder\<close> drops one candidate only.
  In \<open>broken_store\<close> the first candidate has a display name and no
  \<open>PackageRootFolder\<close>, and the second candidate is complete: the read throws outside
  every \<open>try\<close> of the callback, and the promise of \<open>getGameEntries\<close> is rejected.
\<close>

theorem getGameEntries_missing_PackageRootFolder:
  "RegGetValue broken_store (Hive HKEY_CLASSES_ROOT) (REPOSITORY_PATH @ sep @ ''Foo.Bar_1_x64_abc'')
     ''DisplayName'' = Inr ''Bar'' \<and>
   RegGetValue broken_store (Opened HKEY_CLASSES_ROOT REPOSITORY_PATH) ''Foo.Bar_1_x64_abc''
     ''PackageRootFolder'' = Inl (SysError ''ENOENT'') \<and>
   gameEntry broken_store (Opened HKEY_CLASSES_ROOT REPOSITORY_PATH) ''Foo.Game_1_x64_abc'' =
     Inr (Some \<lparr>appid = ''Foo.Game'', publisherId = ''abc'', executionName = ''App'',
          gamePath = ''C:/Game'', name = Some ''Game'', gameStoreId = ''xbox''\<rparr>) \<and>
   getGameEntries broken_store True = Inl (SysError ''ENOENT'')"
  by (simp add: broken_store_def store_defs fixture_defs)

text \<open>
  Claim C4 says that the execution name is the last segment of the first child key, and
  the whole key name when it holds no \<open>!\<close>. It is not: with the first child key
  \<open>Game\<close> the execution name is \<open>App\<close>.
\<close>

theorem executionName_whole_key_counterexample:
  "getFirstKeyName plain_store HKEY_CLASSES_ROOT
     (path_join plain_store REPOSITORY_PATH2 ''Foo.Game_1_x64_abc'') = Some ''Game'' \<and>
   last (split ''Game'' (CHR ''!'')) = ''Game'' \<and>
   gameEntry plain_store (Opened HKEY_CLASSES_ROOT REPOSITORY_PATH) ''Foo.Game_1_x64_abc'' =
     Inr (Some \<lparr>appid = ''Foo.Game'', publisherId = ''abc'', executionName = ''App'',
          gamePath = ''C:/Game'', name = Some ''Game'', gameStoreId = ''xbox''\<rparr>) \<and>
   getGameEntries plain_store True =
     Inr [\<lparr>appid = ''Foo.Game'', publisherId = ''abc'', executionName = ''App'',
          gamePath = ''C:/Game'', name = Some ''Game'', gameStoreId = ''xbox''\<rparr>]"
  by (simp add: plain_firstKeyName plain_gameEntry plain_entries)

text \<open>
  Claim C4, amended. The execution name of an entry is the last segment of the first
  child key under the second repository path when that key name holds a \<open>!\<close>; it is
  the literal \<open>App\<close> when the key name holds no \<open>!\<close> and when no child key is found.
\<close>

theorem gameEntry_executionName:
  assumes "gameEntry w hkey key = Inr (Some e)"
  shows "executionName e =
     (case getFirstKeyName w HKEY_CLASSES_ROOT (path_join w REPOSITORY_PATH2 key) of
        None \<Rightarrow> ''App''
      | Some firstKeyName \<Rightarrow>
          if CHR ''!'' \<in> set firstKeyName then last (split firstKeyName (CHR ''!'')) else ''App'')"
  using assms
  by (auto simp: gameEntry_def Let_def length_split [symmetric]
      split: sum.splits option.splits if_splits)

theorem gameEntry_executionName_witness:
  "gameEntry bang_store (Opened HKEY_CLASSES_ROOT REPOSITORY_PATH) ''Foo.Game_1_x64_abc'' =
     Inr (Some \<lparr>appid = ''Foo.Game'', publisherId = ''abc'', executionName = ''Start'',
          gamePath = ''C:/Game'', name = Some ''Game'', gameStoreId = ''xbox''\<rparr>) \<and>
   executionName \<lparr>appid = ''Foo.Game'', publisherId = ''abc'', executionName = ''Start'',
          gamePath = ''C:/Game'', name = Some ''Game'', gameStoreId = ''xbox''\<rparr> =
     last (split ''Foo.Game_abc!Start'' (CHR ''!'')) \<and>
   last (split ''Foo.Game_abc!Start'' (CHR ''!'')) = ''Start''"
  using gameEntry_executionName [OF bang_gameEntry]
  by (simp add: bang_gameEntry bang_firstKeyName)

lemma map_throwing_returns:
  "\<forall>x \<in> set xs. \<exists>y. f x = Inr y \<Longrightarrow> \<exists>ys. map_throwing f xs = Inr ys"
  by (induction xs) auto

lemma gameEntry_returns:
  "(\<exists>err. RegGetValue w (Hive HKEY_CLASSES_ROOT) (REPOSITORY_PATH @ sep @ key) ''DisplayName'' =
            Inl err) \<or>
   (\<exists>folder. RegGetValue w hkey key ''PackageRootFolder'' = Inr folder) \<Longrightarrow>
   \<exists>y. gameEntry w hkey key = Inr y"
  by (auto simp: gameEntry_def Let_def split: sum.splits)

text \<open>
  Claim C10 says that a candidate whose display name is read, starts with \<open>@\<close> and is
  not resolved is still emitted, with its name undefined. It is not when the
  \<open>PackageRootFolder\<close> of that candidate cannot be read: in \<open>rootless_store\<close> every
  condition of the claim holds, the callback throws and no entry is emitted.
\<close>

theorem unresolved_ref_not_emitted_counterexample:
  "RegGetValue rootless_store (Hive HKEY_CLASSES_ROOT)
     (REPOSITORY_PATH @ sep @ ''Foo.Game_1_x64_abc'') ''DisplayName'' = Inr ''@ref'' \<and>
   startsWith ''@ref'' ''@'' \<and>
   resolveRef rootless_store ''Foo.Game_1_x64_abc'' ''@ref'' = None \<and>
   gameEntry rootless_store (Opened HKEY_CLASSES_ROOT REPOSITORY_PATH) ''Foo.Game_1_x64_abc'' =
     Inl (SysError ''ENOENT'') \<and>
   getGameEntries rootless_store True = Inl (SysError ''ENOENT'')"
  by (simp add: rootless_store_def store_defs fixture_defs)

text \<open>
  Claim C10, amended. When the display name of a candidate is read, starts with \<open>@\<close>
  and \<open>resolveRef\<close> returns \<open>undefined\<close>, and the \<open>PackageRootFolder\<close> of that candidate
  is read without an exception, the callback returns an entry for that key whose name
  is \<open>undefined\<close>. When, moreover, the package repository opens and lists its keys, and
  \<open>PackageRootFolder\<close> is read without an exception for every candidate whose display
  name is read, the enumeration resolves and its result holds that entry.
\<close>

theorem gameEntry_unresolved_ref_kept:
  assumes "RegGetValue w (Hive HKEY_CLASSES_ROOT) (REPOSITORY_PATH @ sep @ key) ''DisplayName'' = Inr displayName"
    and "startsWith displayName ''@''"
    and "resolveRef w key displayName = None"
  shows "(\<forall>folder. RegGetValue w hkey key ''PackageRootFolder'' = Inr folder \<longrightarrow>
        (\<exists>e. gameEntry w hkey key = Inr (Some e) \<and> name e = None)) \<and>
     (\<forall>names.
        RegOpen w HKEY_CLASSES_ROOT REPOSITORY_PATH = None \<and>
        RegEnumKeys w (Opened HKEY_CLASSES_ROOT REPOSITORY_PATH) = Inr names \<and>
        key \<in> set (unignored w names) \<and>
        (\<forall>k \<in> set (unignored w names).
           (\<exists>err. RegGetValue w (Hive HKEY_CLASSES_ROOT) (REPOSITORY_PATH @ sep @ k)
                     ''DisplayName'' = Inl err) \<or>
           (\<exists>folder. RegGetValue w (Opened HKEY_CLASSES_ROOT REPOSITORY_PATH) k
                        ''PackageRootFolder'' = Inr folder)) \<longrightarrow>
        (\<exists>es. getGameEntries w True = Inr es \<and>
           (\<exists>e \<in> set es.
              gameEntry w (Opened HKEY_CLASSES_ROOT REPOSITORY_PATH) key = Inr (Some e) \<and>
              name e = None)))"
proof (intro conjI allI impI)
  fix folder
  assume "RegGetValue w hkey key ''PackageRootFolder'' = Inr folder"
  with assms show "\<exists>e. gameEntry w hkey key = Inr (Some e) \<and> name e = None"
    by (simp add: gameEntry_def Let_def)
next
  fix names
  let ?hkey = "Opened HKEY_CLASSES_ROOT REPOSITORY_PATH"
  assume a: "RegOpen w HKEY_CLASSES_ROOT REPOSITORY_PATH = None \<and>
        RegEnumKeys w ?hkey = Inr names \<and>
        key \<in> set (unignored w names) \<and>
        (\<forall>k \<in> set (unignored w names).
           (\<exists>err. RegGetValue w (Hive HKEY_CLASSES_ROOT) (REPOSITORY_PATH @ sep @ k)
                     ''DisplayName'' = Inl err) \<or>
           (\<exists>folder. RegGetValue w ?hkey k ''PackageRootFolder'' = Inr folder))"
  then have "\<forall>k \<in> set (unignored w names). \<exists>y. gameEntry w ?hkey k = Inr y"
    using gameEntry_returns [of w _ ?hkey] by blast
  from map_throwing_returns [OF this] obtain gameEntries where
    mapped: "map_throwing (gameEntry w ?hkey) (unignored w names) = Inr gameEntries"
    by blast
  define es where "es = List.map_filter (\<lambda>entry. entry) gameEntries"
  from a mapped have resolved: "getGameEntries w True = Inr es"
    by (simp add: getGameEntries_def WithRegOpen_def Let_def es_def)
  from map_throwing_mem [OF mapped] a obtain y where y: "y \<in> set gameEntries"
    "gameEntry w ?hkey key = Inr y"
    by blast
  from y(2) assms obtain e where e: "y = Some e" "name e = None"
    by (auto simp: gameEntry_def Let_def split: sum.splits)
  with y have "e \<in> set es"
    by (simp add: map_filter_mem es_def)
  with e y resolved
  show "\<exists>es. getGameEntries w True = Inr es \<and>
     (\<exists>e \<in> set es. gameEntry w ?hkey key = Inr (Some e) \<and> name e = None)"
    by blast
qed

theorem gameEntry_unresolved_ref_kept_witness:
  "resolveRef unresolved_store ''Foo.Game_1_x64_abc'' ''@ref'' = None \<and>
   getGameEntries unresolved_store True =
     Inr [\<lparr>appid = ''Foo.Game'', publisherId = ''abc'', executionName = ''App'',
          gamePath = ''C:/Game'', name = None, gameStoreId = ''xbox''\<rparr>] \<and>
   (\<exists>es. getGameEntries unresolved_store True = Inr es \<and>
      (\<exists>e \<in> set es.
         gameEntry unresolved_store (Opened HKEY_CLASSES_ROOT REPOSITORY_PATH) ''Foo.Game_1_x64_abc'' =
           Inr (Some e) \<and>
         name e = None))"
proof -
  have dn: "RegGetValue unresolved_store (Hive HKEY_CLASSES_ROOT)
      (REPOSITORY_PATH @ sep @ ''Foo.Game_1_x64_abc'') ''DisplayName'' = Inr ''@ref''"
    by (simp add: unresolved_store_def fixture_defs)
  have at: "startsWith ''@ref'' ''@''"
    by (simp add: startsWith_def)
  have unres: "resolveRef unresolved_store ''Foo.Game_1_x64_abc'' ''@ref'' = None"
    by (simp add: unresolved_store_def store_defs fixture_defs)
  have root: "RegOpen unresolved_store HKEY_CLASSES_ROOT REPOSITORY_PATH = None"
    by (simp add: unresolved_store_def fixture_defs)
  have names: "RegEnumKeys unresolved_store (Opened HKEY_CLASSES_ROOT REPOSITORY_PATH) =
      Inr [''Microsoft.XboxApp_1_x64_8wekyb3d8bbwe'', ''Foo.Game_1_x64_abc'']"
    by (simp add: unresolved_store_def fixture_defs)
  have cands: "unignored unresolved_store
      [''Microsoft.XboxApp_1_x64_8wekyb3d8bbwe'', ''Foo.Game_1_x64_abc''] = [''Foo.Game_1_x64_abc'']"
    by (simp add: unresolved_store_def store_defs fixture_defs)
  have folder: "RegGetValue unresolved_store (Opened HKEY_CLASSES_ROOT REPOSITORY_PATH)
      ''Foo.Game_1_x64_abc'' ''PackageRootFolder'' = Inr ''C:/Game''"
    by (simp add: unresolved_store_def fixture_defs)
  have "\<exists>es. getGameEntries unresolved_store True = Inr es \<and>
      (\<exists>e \<in> set es.
         gameEntry unresolved_store (Opened HKEY_CLASSES_ROOT REPOSITORY_PATH) ''Foo.Game_1_x64_abc'' =
           Inr (Some e) \<and>
         name e = None)"
    using gameEntry_unresolved_ref_kept [OF dn at unres, of "Opened HKEY_CLASSES_ROOT REPOSITORY_PATH"]
      root names cands folder
    by simp
  with unres unresolved_entries show ?thesis by simp
qed

section \<open>The cache of the launcher (allGames, reloadGames)\<close>

text \<open>
  Claim C8. With the store installed, a second \<open>allGames\<close> returns the promise of the
  first and leaves the launcher as it is, whatever the registry holds by then (\<open>w2\<close>):
  no query is made. The first call stores its promise in \<open>mCache\<close>, and made the query
  if the cache was unset. After \<open>reloadGames\<close>, \<open>allGames\<close> returns the result of the
  query that \<open>reloadGames\<close> made on the registry of its time (\<open>w3\<close>).
\<close>

theorem allGames_memoized:
  assumes "isXboxInstalled this"
  shows "fst (allGames w2 (snd (allGames w1 this))) = fst (allGames w1 this) \<and>
         snd (allGames w2 (snd (allGames w1 this))) = snd (allGames w1 this) \<and>
         mCache (snd (allGames w1 this)) = Some (fst (allGames w1 this)) \<and>
         (mCache this = None \<longrightarrow> fst (allGames w1 this) = getGameEntries w1 True) \<and>
         fst (allGames w4 (reloadGames w3 (snd (allGames w1 this)))) = getGameEntries w3 True"
  using assms
  by (auto simp: allGames_def reloadGames_def Let_def split: option.splits)

theorem allGames_memoized_witness:
  "isXboxInstalled (XboxLauncher_new plain_store True) \<and>
   fst (allGames plain_store (XboxLauncher_new plain_store True)) =
     Inr [\<lparr>appid = ''Foo.Game'', publisherId = ''abc'', executionName = ''App'',
          gamePath = ''C:/Game'', name = Some ''Game'', gameStoreId = ''xbox''\<rparr>] \<and>
   fst (allGames bang_store (snd (allGames plain_store (XboxLauncher_new plain_store True)))) =
     Inr [\<lparr>appid = ''Foo.Game'', publisherId = ''abc'', executionName = ''App'',
          gamePath = ''C:/Game'', name = Some ''Game'', gameStoreId = ''xbox''\<rparr>] \<and>
   fst (allGames plain_store
          (reloadGames bang_store (snd (allGames plain_store (XboxLauncher_new plain_store True))))) =
     Inr [\<lparr>appid = ''Foo.Game'', publisherId = ''abc'', executionName = ''Start'',
          gamePath = ''C:/Game'', name = Some ''Game'', gameStoreId = ''xbox''\<rparr>]"
proof -
  have inst: "isXboxInstalled (XboxLauncher_new plain_store True)"
    by (simp add: new_plain)
  have none: "mCache (XboxLauncher_new plain_store True) = None"
    by (simp add: new_plain)
  from allGames_memoized [OF inst, of bang_store plain_store plain_store bang_store] none inst
  show ?thesis
    by (simp add: plain_entries bang_entries)
qed


end
